theory Spec2Isabelle
  imports Main
begin

section \<open>Thrown errors\<close>

text \<open>
  Every \<^verbatim>\<open>throw new Error(msg)\<close> of \<^verbatim>\<open>lib/main.ts\<close> is the value \<open>Error msg\<close>;
  a property read or a call on \<^verbatim>\<open>undefined\<close>, which the JavaScript engine reports
  as a \<^verbatim>\<open>TypeError\<close>, is \<open>TypeError\<close>.  A function that can throw returns
  \<open>error + 'a\<close> with \<open>Inl\<close> for the thrown error.
\<close>

datatype error = Error string | TypeError string

section \<open>Callback group\<close>

text \<open>
  \<^verbatim>\<open>createCallbackGroup\<close> keeps a \<^verbatim>\<open>Set<Function>\<close>.  A JavaScript set iterates in
  insertion order and holds a function at most once, so it is a list to which
  \<^verbatim>\<open>add\<close> appends only what is not yet there.  A function is known by its identity
  (a number).  Listeners are opaque: calling one is recorded as an invocation, the
  pair of the listener and the arguments it received, and the operations return the
  invocations they made, in the order they made them.  A listener that calls back into
  the group or the signal while it is being called is not modelled.
\<close>

type_synonym callback = nat

record remover =
  removes :: callback
  active :: bool

definition group_add :: "callback list \<Rightarrow> callback \<Rightarrow> callback list \<times> remover" where
  "group_add callbacks callback =
     ((if callback \<in> set callbacks then callbacks else callbacks @ [callback]),
      \<lparr>removes = callback, active = True\<rparr>)"

definition group_remove :: "remover \<Rightarrow> callback list \<Rightarrow> remover \<times> callback list" where
  "group_remove r callbacks =
     (if active r then (r\<lparr>active := False\<rparr>, removeAll (removes r) callbacks)
      else (r, callbacks))"

definition group_call :: "callback list \<Rightarrow> 'x list \<Rightarrow> (callback \<times> 'x list) list" where
  "group_call callbacks args =
     (if length args > 2 then map (\<lambda>callback. (callback, args)) callbacks
      else if length args = 2 then map (\<lambda>callback. (callback, [args ! 0, args ! 1])) callbacks
      else if length args = 1 then map (\<lambda>callback. (callback, [args ! 0])) callbacks
      else map (\<lambda>callback. (callback, [])) callbacks)"

section \<open>Signal\<close>

text \<open>
  \<^verbatim>\<open>createSignal(initialState, reducer)\<close>.  The closure variables \<^verbatim>\<open>currentState\<close>,
  \<^verbatim>\<open>stateListeners\<close>, \<^verbatim>\<open>actionListeners\<close> and the parameter \<^verbatim>\<open>reducer\<close> are the fields
  of the record.  The argument of \<^verbatim>\<open>set\<close> is either a function (\<open>Updater\<close>) or any other
  value (\<open>Value\<close>): the constructor is the outcome of \<^verbatim>\<open>typeof nextState === "function"\<close>.
  The result of the reducer goes through the same test, since \<^verbatim>\<open>emit\<close> hands it to
  \<^verbatim>\<open>set\<close>.  \<^verbatim>\<open>===\<close> is HOL equality on the value type, so the value type has no
  \<^verbatim>\<open>NaN\<close>, the one value that is not \<^verbatim>\<open>===\<close> to itself.
\<close>

datatype 'v next_state = Value 'v | Updater "'v \<Rightarrow> 'v"

datatype ('v, 'a) argument = StateArgument 'v | ActionArgument 'a

type_synonym ('v, 'a) invocation = "callback \<times> ('v, 'a) argument list"

record ('v, 'a) signal =
  currentState :: 'v
  stateListeners :: "callback list"
  actionListeners :: "callback list"
  reducer :: "('v \<Rightarrow> 'a \<Rightarrow> 'v next_state) option"

record subscription =
  onAction :: bool
  remove_listener :: remover

definition createSignal :: "'v \<Rightarrow> ('v \<Rightarrow> 'a \<Rightarrow> 'v next_state) option \<Rightarrow> ('v, 'a) signal" where
  "createSignal initialState r =
     \<lparr>currentState = initialState, stateListeners = [], actionListeners = [], reducer = r\<rparr>"

definition signal_get :: "('v, 'a) signal \<Rightarrow> 'v" where
  "signal_get sig = currentState sig"

definition signal_set ::
  "('v, 'a) signal \<Rightarrow> 'v next_state \<Rightarrow> ('v, 'a) signal \<times> ('v, 'a) invocation list" where
  "signal_set sig nextState =
     (let nextState' = (case nextState of Updater f \<Rightarrow> f (currentState sig) | Value v \<Rightarrow> v)
      in if currentState sig = nextState' then (sig, [])
         else (let sig' = sig\<lparr>currentState := nextState'\<rparr>
               in (sig', group_call (stateListeners sig') [StateArgument (currentState sig')])))"

definition signal_toggle ::
  "(bool, 'a) signal \<Rightarrow> (bool, 'a) signal \<times> (bool, 'a) invocation list" where
  "signal_toggle sig = signal_set sig (Updater (\<lambda>prev. \<not> prev))"

definition signal_on ::
  "('v, 'a) signal \<Rightarrow> callback \<Rightarrow> string option \<Rightarrow>
     ('v, 'a) signal \<times> ('v, 'a) invocation list \<times> subscription" where
  "signal_on sig listener type =
     (let replay = (if type = Some ''state''
                    then [(listener, [StateArgument (currentState sig)])] else [])
      in if type = Some ''action''
         then (let (callbacks, r) = group_add (actionListeners sig) listener
               in (sig\<lparr>actionListeners := callbacks\<rparr>, replay,
                   \<lparr>onAction = True, remove_listener = r\<rparr>))
         else (let (callbacks, r) = group_add (stateListeners sig) listener
               in (sig\<lparr>stateListeners := callbacks\<rparr>, replay,
                   \<lparr>onAction = False, remove_listener = r\<rparr>)))"

definition signal_off ::
  "subscription \<Rightarrow> ('v, 'a) signal \<Rightarrow> subscription \<times> ('v, 'a) signal" where
  "signal_off s sig =
     (if onAction s
      then (let (r, callbacks) = group_remove (remove_listener s) (actionListeners sig)
            in (s\<lparr>remove_listener := r\<rparr>, sig\<lparr>actionListeners := callbacks\<rparr>))
      else (let (r, callbacks) = group_remove (remove_listener s) (stateListeners sig)
            in (s\<lparr>remove_listener := r\<rparr>, sig\<lparr>stateListeners := callbacks\<rparr>)))"

text \<open>
  Only the object returned for a signal with a reducer has \<^verbatim>\<open>emit\<close>; on the other
  object the call is a \<^verbatim>\<open>TypeError\<close>.
\<close>

definition emit ::
  "('v, 'a) signal \<Rightarrow> 'a \<Rightarrow> error + (('v, 'a) signal \<times> ('v, 'a) invocation list)" where
  "emit sig action =
     (case reducer sig of
        None \<Rightarrow> Inl (TypeError ''emit is not a function'')
      | Some r \<Rightarrow>
          (let notified = group_call (actionListeners sig)
                            [StateArgument (currentState sig), ActionArgument action];
               (sig', notified') = signal_set sig (r (currentState sig) action)
           in Inr (sig', notified @ notified')))"

text \<open>
  The listener lists of a signal never hold a listener twice: this holds for a new
  signal and every operation keeps it.
\<close>

definition signal_inv :: "('v, 'a) signal \<Rightarrow> bool" where
  "signal_inv sig = (distinct (stateListeners sig) \<and> distinct (actionListeners sig))"

section \<open>Ref\<close>

text \<open>
  \<^verbatim>\<open>createRef(id, type, init, onUnmount, onMount)\<close>.  The closure variables
  \<^verbatim>\<open>accessor\<close> and \<^verbatim>\<open>mounted\<close> are fields of the record, next to the three optional
  hooks.  A hook is a function on a world \<open>'w\<close> (the document and the closure
  variables of whoever created the ref) that may throw.  \<^verbatim>\<open>init\<close> returns the
  accessor or nothing; the accessors of this file take no argument, so an accessor is
  a function of the world alone.  \<open>invoke\<close> is the call of the handle itself.  The
  methods \<^verbatim>\<open>style\<close>, \<^verbatim>\<open>class\<close> and \<^verbatim>\<open>update\<close> of an attribute ref are not modelled.
\<close>

datatype ref_type = Attribute | Element

datatype ('e, 'r) accessed = TheElement 'e | Returned 'r

record ('e, 'r, 'w) ref =
  ref_id :: string
  template :: string
  init :: "('e \<Rightarrow> 'w \<Rightarrow> error + (('w \<Rightarrow> 'r) option \<times> 'w)) option"
  onUnmount :: "('w \<Rightarrow> error + 'w) option"
  onMount :: "('w \<Rightarrow> error + 'w) option"
  accessor :: "('w \<Rightarrow> ('e, 'r) accessed) option"
  mounted :: bool

definition generateRefAttribute :: "string \<Rightarrow> string" where
  "generateRefAttribute i = '' data-ref-'' @ i @ '' ''"

definition generateTemplateHTML :: "string \<Rightarrow> string" where
  "generateTemplateHTML i =
     ''<template data-ref='' @ [CHR 0x22] @ i @ [CHR 0x22] @ '' '' @ generateRefAttribute i
       @ ''></template>''"

definition createRef ::
  "string \<Rightarrow> ref_type \<Rightarrow> ('e \<Rightarrow> 'w \<Rightarrow> error + (('w \<Rightarrow> 'r) option \<times> 'w)) option \<Rightarrow>
     ('w \<Rightarrow> error + 'w) option \<Rightarrow> ('w \<Rightarrow> error + 'w) option \<Rightarrow> ('e, 'r, 'w) ref" where
  "createRef i type ini onUnm onM =
     \<lparr>ref_id = i,
      template = (if type = Attribute then generateRefAttribute i else generateTemplateHTML i),
      init = ini, onUnmount = onUnm, onMount = onM, accessor = None, mounted = False\<rparr>"

definition invoke :: "('e, 'r, 'w) ref \<Rightarrow> 'w \<Rightarrow> error + ('e, 'r) accessed" where
  "invoke r w =
     (if \<not> mounted r then Inl (Error ''The ref has not been mounted'')
      else (case accessor r of
              None \<Rightarrow> Inl (TypeError ''accessor is not a function'')
            | Some a \<Rightarrow> Inr (a w)))"

definition mount ::
  "('e, 'r, 'w) ref \<Rightarrow> 'e \<Rightarrow> 'w \<Rightarrow> error + (('e, 'r, 'w) ref \<times> 'w)" where
  "mount r element w =
     (if mounted r then Inl (Error ''Cannot re-mount. The ref has been mounted'')
      else (case (case init r of None \<Rightarrow> Inr (None, w) | Some f \<Rightarrow> f element w) of
              Inl err \<Rightarrow> Inl err
            | Inr (a, w1) \<Rightarrow>
                (let r1 = r\<lparr>accessor := Some (case a of
                                                None \<Rightarrow> (\<lambda>_. TheElement element)
                                              | Some g \<Rightarrow> (\<lambda>w'. Returned (g w'))),
                             mounted := True\<rparr>
                 in (case onMount r of
                       None \<Rightarrow> Inr (r1, w1)
                     | Some h \<Rightarrow>
                         (case h w1 of Inl err \<Rightarrow> Inl err | Inr w2 \<Rightarrow> Inr (r1, w2))))))"

definition unmount :: "('e, 'r, 'w) ref \<Rightarrow> 'w \<Rightarrow> error + (('e, 'r, 'w) ref \<times> 'w)" where
  "unmount r w =
     (if \<not> mounted r then Inr (r, w)
      else (let r1 = r\<lparr>mounted := False\<rparr>
            in (case onUnmount r of
                  None \<Rightarrow> Inr (r1, w)
                | Some h \<Rightarrow> (case h w of Inl err \<Rightarrow> Inl err | Inr w1 \<Rightarrow> Inr (r1, w1)))))"

section \<open>The document\<close>

text \<open>
  The host document is not part of the repository.  Of it the runtime uses the tree
  structure (\<^verbatim>\<open>parentNode\<close>, \<^verbatim>\<open>nextSibling\<close>, \<^verbatim>\<open>before\<close>, \<^verbatim>\<open>insertBefore\<close>,
  \<^verbatim>\<open>remove\<close>), the attributes of elements and \<^verbatim>\<open>querySelector\<close> with an attribute
  selector.  The document is a store: a node is an address, and the store gives its
  parent, its children in document order, its tag (none for a text node) and its
  attributes.  The operations follow the DOM standard: inserting a node first takes it
  out of its old parent, and inserting a node before itself leaves the tree as it is.
  Attribute names are compared as they are written.  Markup is given parsed (the HTML
  parser is the host's), and \<open>instantiate\<close> builds the nodes of one parsed element.
\<close>

type_synonym node = nat

record document =
  parentNode :: "node \<Rightarrow> node option"
  childNodes :: "node \<Rightarrow> node list"
  tagName :: "node \<Rightarrow> string option"
  attributes :: "node \<Rightarrow> (string \<times> string) list"
  nextNode :: node

datatype markup = MElement string "(string \<times> string) list" "markup list" | MText string

definition empty_document :: document where
  "empty_document =
     \<lparr>parentNode = (\<lambda>_. None), childNodes = (\<lambda>_. []), tagName = (\<lambda>_. None),
      attributes = (\<lambda>_. []), nextNode = 0\<rparr>"

definition new_node :: "string option \<Rightarrow> (string \<times> string) list \<Rightarrow> document \<Rightarrow> node \<times> document" where
  "new_node tag attrs d =
     (let n = nextNode d
      in (n, d\<lparr>parentNode := (parentNode d)(n := None),
               childNodes := (childNodes d)(n := []),
               tagName := (tagName d)(n := tag),
               attributes := (attributes d)(n := attrs),
               nextNode := Suc n\<rparr>))"

definition createTextNode :: "document \<Rightarrow> node \<times> document" where
  "createTextNode d = new_node None [] d"

definition createElement :: "string \<Rightarrow> document \<Rightarrow> node \<times> document" where
  "createElement tag d = new_node (Some tag) [] d"

definition appendChild :: "node \<Rightarrow> node \<Rightarrow> document \<Rightarrow> document" where
  "appendChild p c d =
     d\<lparr>childNodes := (childNodes d)(p := childNodes d p @ [c]),
       parentNode := (parentNode d)(c := Some p)\<rparr>"

fun instantiate :: "markup \<Rightarrow> document \<Rightarrow> node \<times> document"
  and instantiate_all :: "markup list \<Rightarrow> node \<Rightarrow> document \<Rightarrow> document" where
  "instantiate (MText s) d = new_node None [] d"
| "instantiate (MElement tag attrs kids) d =
     (let (n, d1) = new_node (Some tag) attrs d in (n, instantiate_all kids n d1))"
| "instantiate_all [] p d = d"
| "instantiate_all (k # ks) p d =
     (let (c, d1) = instantiate k d in instantiate_all ks p (appendChild p c d1))"

definition remove_node :: "node \<Rightarrow> document \<Rightarrow> document" where
  "remove_node n d =
     (case parentNode d n of
        None \<Rightarrow> d
      | Some p \<Rightarrow> d\<lparr>childNodes := (childNodes d)(p := remove1 n (childNodes d p)),
                    parentNode := (parentNode d)(n := None)\<rparr>)"

fun insert_in_front_of :: "node \<Rightarrow> node \<Rightarrow> node list \<Rightarrow> node list" where
  "insert_in_front_of reference n [] = []"
| "insert_in_front_of reference n (x # xs) =
     (if x = reference then n # x # xs else x # insert_in_front_of reference n xs)"

definition parent_insertBefore :: "node \<Rightarrow> node \<Rightarrow> node \<Rightarrow> document \<Rightarrow> document" where
  "parent_insertBefore p newNode referenceNode d =
     (if newNode = referenceNode then d
      else (let d1 = remove_node newNode d
            in d1\<lparr>childNodes :=
                     (childNodes d1)(p := insert_in_front_of referenceNode newNode (childNodes d1 p)),
                   parentNode := (parentNode d1)(newNode := Some p)\<rparr>))"

definition before :: "node \<Rightarrow> node \<Rightarrow> document \<Rightarrow> document" where
  "before reference newNode d =
     (case parentNode d reference of
        None \<Rightarrow> d
      | Some p \<Rightarrow> parent_insertBefore p newNode reference d)"

definition insertBefore :: "node \<Rightarrow> node \<Rightarrow> document \<Rightarrow> document" where
  "insertBefore currentNode newNode d =
     (case parentNode d currentNode of
        None \<Rightarrow> d
      | Some p \<Rightarrow> parent_insertBefore p newNode currentNode d)"

fun following :: "node \<Rightarrow> node list \<Rightarrow> node option" where
  "following n (x # y # xs) = (if x = n then Some y else following n (y # xs))"
| "following n xs = None"

definition nextSibling :: "document \<Rightarrow> node \<Rightarrow> node option" where
  "nextSibling d n =
     (case parentNode d n of None \<Rightarrow> None | Some p \<Rightarrow> following n (childNodes d p))"

definition getAttribute :: "document \<Rightarrow> node \<Rightarrow> string \<Rightarrow> string option" where
  "getAttribute d n name = map_of (attributes d n) name"

definition setAttribute :: "node \<Rightarrow> string \<Rightarrow> string \<Rightarrow> document \<Rightarrow> document" where
  "setAttribute n name v d =
     d\<lparr>attributes := (attributes d)(n :=
         (if name \<in> fst ` set (attributes d n)
          then map (\<lambda>(k, u). if k = name then (k, v) else (k, u)) (attributes d n)
          else attributes d n @ [(name, v)]))\<rparr>"

definition removeAttribute :: "node \<Rightarrow> string \<Rightarrow> document \<Rightarrow> document" where
  "removeAttribute n name d =
     d\<lparr>attributes := (attributes d)(n := filter (\<lambda>(k, u). k \<noteq> name) (attributes d n))\<rparr>"

text \<open>
  The descendants of a node in document order.  The store is not a tree by its type,
  so the walk is bounded by a depth; \<open>querySelector\<close> walks as deep as the store has
  nodes, which is every descendant of a tree.
\<close>

fun descendants :: "nat \<Rightarrow> document \<Rightarrow> node \<Rightarrow> node list" where
  "descendants 0 d n = []"
| "descendants (Suc depth) d n =
     concat (map (\<lambda>c. c # descendants depth d c) (childNodes d n))"

definition querySelector :: "document \<Rightarrow> node \<Rightarrow> string \<Rightarrow> node option" where
  "querySelector d root attr =
     find (\<lambda>n. tagName d n \<noteq> None \<and> getAttribute d n attr \<noteq> None)
          (descendants (nextNode d) d root)"

section \<open>The world\<close>

text \<open>
  The hooks of the refs of one block act on the same document and on the closure
  variables of the toggles and lists of the block.  The world holds the document, the
  console, the module variable \<^verbatim>\<open>dynamicRefId\<close>, and the closure variables of
  \<^verbatim>\<open>createToggle(id, ...)\<close> and \<^verbatim>\<open>createList(context, id, ...)\<close> under the id of their ref.
  A variable declared without a value is \<open>None\<close>.  An entry of a list is a child block,
  of which the list uses the root element, the controller and \<^verbatim>\<open>unmount\<close>; the refs and
  effects inside a child block are not modelled.
\<close>

record toggle_vars =
  placeholder :: "node option"
  rootElement :: "node option"
  visible :: bool

record 'c block =
  rootElementB :: node
  controller :: 'c

record 'c list_vars =
  placeholderL :: "node option"
  items :: "'c block list"

record 'c world =
  doc :: document
  console :: "string list"
  dynamicRefId :: nat
  toggles :: "string \<Rightarrow> toggle_vars"
  lists :: "string \<Rightarrow> 'c list_vars"

datatype 'c returned = Undefined | Controller 'c

definition empty_world :: "'c world" where
  "empty_world =
     \<lparr>doc = empty_document, console = [], dynamicRefId = 0,
      toggles = (\<lambda>_. \<lparr>placeholder = None, rootElement = None, visible = False\<rparr>),
      lists = (\<lambda>_. \<lparr>placeholderL = None, items = []\<rparr>)\<rparr>"

section \<open>Toggle\<close>

text \<open>
  \<^verbatim>\<open>createToggle(id, initialVisible = true, onMount)\<close>; an argument that is not given
  is \<open>None\<close>.  The closure variable \<^verbatim>\<open>visible\<close> starts as false.  \<open>set_visible\<close> is the setter of
  \<^verbatim>\<open>toggle.visible\<close> and \<open>get_visible\<close> the getter.  \<^verbatim>\<open>insertBefore\<close> and \<^verbatim>\<open>remove\<close> on a
  variable that is still \<^verbatim>\<open>undefined\<close> throw a \<^verbatim>\<open>TypeError\<close>.
\<close>

definition get_visible :: "string \<Rightarrow> 'c world \<Rightarrow> bool" where
  "get_visible i w = visible (toggles w i)"

definition set_visible :: "string \<Rightarrow> bool \<Rightarrow> 'c world \<Rightarrow> error + 'c world" where
  "set_visible i v w =
     (if v = visible (toggles w i) then Inr w
      else (let w1 = w\<lparr>toggles := (toggles w)(i := (toggles w i)\<lparr>visible := v\<rparr>)\<rparr>
            in if visible (toggles w1 i)
               then (case (placeholder (toggles w1 i), rootElement (toggles w1 i)) of
                       (Some ph, Some re) \<Rightarrow> Inr (w1\<lparr>doc := insertBefore ph re (doc w1)\<rparr>)
                     | _ \<Rightarrow> Inl (TypeError ''Cannot read properties of undefined''))
               else (case rootElement (toggles w1 i) of
                       Some re \<Rightarrow> Inr (w1\<lparr>doc := remove_node re (doc w1)\<rparr>)
                     | None \<Rightarrow> Inl (TypeError ''Cannot read properties of undefined''))))"

definition toggle_init ::
  "string \<Rightarrow> node \<Rightarrow> 'c world \<Rightarrow> error + (('c world \<Rightarrow> 'c returned) option \<times> 'c world)" where
  "toggle_init i element w =
     (let (ph, d1) = createTextNode (doc w);
          d2 = before element ph d1
      in Inr (None, w\<lparr>doc := d2,
                       toggles := (toggles w)(i := (toggles w i)\<lparr>placeholder := Some ph,
                                                                  rootElement := Some element\<rparr>)\<rparr>))"

definition toggle_onMount ::
  "string \<Rightarrow> bool \<Rightarrow> (node option \<Rightarrow> 'c world \<Rightarrow> error + 'c world) option \<Rightarrow>
     'c world \<Rightarrow> error + 'c world" where
  "toggle_onMount i initialVisible onM w =
     (case set_visible i initialVisible w of
        Inl err \<Rightarrow> Inl err
      | Inr w1 \<Rightarrow> (case onM of None \<Rightarrow> Inr w1 | Some f \<Rightarrow> f (rootElement (toggles w1 i)) w1))"

definition createToggle ::
  "string \<Rightarrow> bool option \<Rightarrow> (node option \<Rightarrow> 'c world \<Rightarrow> error + 'c world) option \<Rightarrow>
     'c world \<Rightarrow> (node, 'c returned, 'c world) ref \<times> 'c world" where
  "createToggle i initialVisible onM w =
     (createRef i Attribute (Some (toggle_init i)) (Some (\<lambda>w'. Inr w'))
        (Some (toggle_onMount i (case initialVisible of None \<Rightarrow> True | Some v \<Rightarrow> v) onM)),
      w\<lparr>toggles := (toggles w)(i := \<lparr>placeholder = None, rootElement = None, visible = False\<rparr>)\<rparr>)"

definition toggle_show :: "string \<Rightarrow> 'c world \<Rightarrow> error + 'c world" where
  "toggle_show i w = set_visible i True w"

definition toggle_hide :: "string \<Rightarrow> 'c world \<Rightarrow> error + 'c world" where
  "toggle_hide i w = set_visible i False w"

definition toggle_toggle :: "string \<Rightarrow> 'c world \<Rightarrow> error + 'c world" where
  "toggle_toggle i w = set_visible i (\<not> get_visible i w) w"

section \<open>Strings\<close>

text \<open>
  \<^verbatim>\<open>Number.prototype.toString(radix)\<close> on a natural number, for the radix 10 or 36 of
  its two calls, and \<^verbatim>\<open>String.prototype.trim\<close> (ASCII white space).
\<close>

definition digit_char :: "nat \<Rightarrow> char" where
  "digit_char k = ''0123456789abcdefghijklmnopqrstuvwxyz'' ! k"

fun toString :: "nat \<Rightarrow> nat \<Rightarrow> string" where
  "toString radix n =
     (if n < radix \<or> radix < 2 then [digit_char n]
      else toString radix (n div radix) @ [digit_char (n mod radix)])"

definition is_space :: "char \<Rightarrow> bool" where
  "is_space c = (c \<in> set [CHR '' '', CHR 0x09, CHR 0x0A, CHR 0x0B, CHR 0x0C, CHR 0x0D])"

definition trim :: "string \<Rightarrow> string" where
  "trim s = rev (dropWhile is_space (rev (dropWhile is_space s)))"

section \<open>Resolution of refs\<close>

text \<open>
  \<^verbatim>\<open>mountRefs(rootElement, refs)\<close>.  \<^verbatim>\<open>forEach\<close> is the recursion over the list.  Beside
  the refs and the world the function returns, in the order of the calls, the id and
  the element of every call of \<^verbatim>\<open>ref.mount\<close>; \<^verbatim>\<open>console.warn\<close> appends to the console.
\<close>

fun mountRefs ::
  "node \<Rightarrow> (node, 'r, 'c world) ref list \<Rightarrow> 'c world \<Rightarrow>
     error + ((node, 'r, 'c world) ref list \<times> 'c world \<times> (string \<times> node) list)" where
  "mountRefs rootElem [] w = Inr ([], w, [])"
| "mountRefs rootElem (r # rs) w =
     (if ref_id r = [] then Inl (Error ''Invalid ref'')
      else (let attr = trim (generateRefAttribute (ref_id r));
                refElement = (if getAttribute (doc w) rootElem attr = Some []
                              then Some rootElem
                              else querySelector (doc w) rootElem attr)
            in (case refElement of
                  None \<Rightarrow>
                    (case mountRefs rootElem rs
                            (w\<lparr>console := console w @
                                 [''Ref element '' @ ref_id r @ '' is not rendered'']\<rparr>) of
                       Inl err \<Rightarrow> Inl err
                     | Inr (rs', w', resolved) \<Rightarrow> Inr (r # rs', w', resolved))
                | Some element \<Rightarrow>
                    (case mount r element
                            (w\<lparr>doc := removeAttribute element (ref_id r) (doc w)\<rparr>) of
                       Inl err \<Rightarrow> Inl err
                     | Inr (r', w1) \<Rightarrow>
                         (case mountRefs rootElem rs w1 of
                            Inl err \<Rightarrow> Inl err
                          | Inr (rs', w', resolved) \<Rightarrow>
                              Inr (r' # rs', w', (ref_id r, element) # resolved))))))"

section \<open>List\<close>

text \<open>
  \<^verbatim>\<open>createList(context, id, blockBuilder, initialData)\<close>.  The closure variables
  \<^verbatim>\<open>placeholder\<close> and \<^verbatim>\<open>items\<close> are in the world under the id of the list.  An index is
  a JavaScript number that is an integer (\<open>int\<close>); \<open>item_at\<close> is \<^verbatim>\<open>items[index]\<close>, which is
  \<^verbatim>\<open>undefined\<close> out of range.  The block builder of the entries is a function from the
  data to the controller; \<open>item_mount\<close> is \<^verbatim>\<open>Block.mount\<close> of a child block as the list
  sees it: the cloned root element (a new element; its tag and content play no part)
  takes the place of the template element.
\<close>

definition item_at :: "'a list \<Rightarrow> int \<Rightarrow> 'a option" where
  "item_at xs k = (if 0 \<le> k \<and> k < int (length xs) then Some (xs ! nat k) else None)"

definition splice_start :: "nat \<Rightarrow> int \<Rightarrow> nat" where
  "splice_start len k = (if k < 0 then nat (max (int len + k) 0) else min (nat k) len)"

definition splice_count :: "nat \<Rightarrow> nat \<Rightarrow> int \<Rightarrow> nat" where
  "splice_count len start k = min (nat (max k 0)) (len - start)"

definition generateDynamicRefId :: "'c world \<Rightarrow> string \<times> 'c world" where
  "generateDynamicRefId w =
     (''D'' @ toString 10 (dynamicRefId w), w\<lparr>dynamicRefId := Suc (dynamicRefId w)\<rparr>)"

definition item_mount :: "('d \<Rightarrow> 'c) \<Rightarrow> 'd \<Rightarrow> node \<Rightarrow> 'c world \<Rightarrow> error + ('c block \<times> 'c world)" where
  "item_mount blockBuilder data templateElement w =
     (if tagName (doc w) templateElement \<noteq> Some ''TEMPLATE'' then Inl (Error ''Invalid element'')
      else (let (rootElem, d1) = createElement ''DIV'' (doc w);
                d2 = before templateElement rootElem d1;
                d3 = remove_node templateElement d2
            in Inr (\<lparr>rootElementB = rootElem, controller = blockBuilder data\<rparr>, w\<lparr>doc := d3\<rparr>)))"

definition item_unmount :: "'c block \<Rightarrow> 'c world \<Rightarrow> 'c world" where
  "item_unmount item w = w\<lparr>doc := remove_node (rootElementB item) (doc w)\<rparr>"

definition createItem ::
  "('d \<Rightarrow> 'c) \<Rightarrow> 'd \<Rightarrow> (node \<Rightarrow> 'c world \<Rightarrow> error + 'c world) \<Rightarrow> 'c world \<Rightarrow>
     error + ('c block \<times> 'c world)" where
  "createItem blockBuilder data insertAction w =
     (let (templateElement, d1) = createElement ''TEMPLATE'' (doc w);
          (dynamicId, w1) = generateDynamicRefId (w\<lparr>doc := d1\<rparr>);
          w2 = w1\<lparr>doc := setAttribute templateElement ''data-ref'' dynamicId (doc w1)\<rparr>
      in (case insertAction templateElement w2 of
            Inl err \<Rightarrow> Inl err
          | Inr w3 \<Rightarrow> item_mount blockBuilder data templateElement w3))"

definition insert_before_anchor :: "node option \<Rightarrow> node \<Rightarrow> 'c world \<Rightarrow> error + 'c world" where
  "insert_before_anchor currentNode newNode w =
     (case currentNode of
        None \<Rightarrow> Inl (TypeError ''Cannot read properties of undefined (reading parentNode)'')
      | Some n \<Rightarrow> Inr (w\<lparr>doc := insertBefore n newNode (doc w)\<rparr>))"

definition set_items :: "string \<Rightarrow> 'c block list \<Rightarrow> 'c world \<Rightarrow> 'c world" where
  "set_items i its w = w\<lparr>lists := (lists w)(i := (lists w i)\<lparr>items := its\<rparr>)\<rparr>"

definition list_init ::
  "string \<Rightarrow> node \<Rightarrow> 'c world \<Rightarrow> error + (('c world \<Rightarrow> 'c returned) option \<times> 'c world)" where
  "list_init i element w =
     (let (ph, d1) = createTextNode (doc w);
          d2 = before element ph d1;
          d3 = remove_node element d2
      in Inr (Some (\<lambda>_. Undefined),
              w\<lparr>doc := d3, lists := (lists w)(i := (lists w i)\<lparr>placeholderL := Some ph\<rparr>)\<rparr>))"

definition list_onUnmount :: "string \<Rightarrow> 'c world \<Rightarrow> error + 'c world" where
  "list_onUnmount i w =
     (let w1 = fold item_unmount (items (lists w i)) w;
          w2 = set_items i [] w1
      in (case placeholderL (lists w2 i) of
            None \<Rightarrow> Inl (TypeError ''Cannot read properties of undefined (reading parentNode)'')
          | Some ph \<Rightarrow> Inr (w2\<lparr>doc := remove_node ph (doc w2)\<rparr>)))"

definition list_ref :: "string \<Rightarrow> (node, 'c returned, 'c world) ref" where
  "list_ref i = createRef i Element (Some (list_init i)) (Some (list_onUnmount i)) None"

definition list_size :: "string \<Rightarrow> 'c world \<Rightarrow> nat" where
  "list_size i w = length (items (lists w i))"

definition list_get :: "string \<Rightarrow> int \<Rightarrow> 'c world \<Rightarrow> 'c option" where
  "list_get i index w = map_option controller (item_at (items (lists w i)) index)"

definition list_set ::
  "string \<Rightarrow> ('d \<Rightarrow> 'c) \<Rightarrow> int \<Rightarrow> 'd \<Rightarrow> 'c world \<Rightarrow> error + ('c \<times> 'c world)" where
  "list_set i blockBuilder index data w =
     (if index < 0 \<or> index \<ge> int (length (items (lists w i)))
      then Inl (Error ''Item index is out of range'')
      else (case createItem blockBuilder data
                   (\<lambda>element w'. insert_before_anchor
                       (map_option rootElementB (item_at (items (lists w' i)) index)) element w') w of
              Inl err \<Rightarrow> Inl err
            | Inr (block, w1) \<Rightarrow>
                (let w2 = item_unmount (items (lists w1 i) ! nat index) w1
                 in Inr (controller block,
                         set_items i ((items (lists w2 i))[nat index := block]) w2))))"

definition list_first :: "string \<Rightarrow> 'c world \<Rightarrow> error + 'c" where
  "list_first i w =
     (if length (items (lists w i)) \<noteq> 0
      then Inl (Error ''Cannot access the first item of empty list'')
      else (case item_at (items (lists w i)) 0 of
              None \<Rightarrow> Inl (TypeError ''Cannot read properties of undefined (reading controller)'')
            | Some item \<Rightarrow> Inr (controller item)))"

definition list_last :: "string \<Rightarrow> 'c world \<Rightarrow> error + 'c" where
  "list_last i w =
     (if length (items (lists w i)) \<noteq> 0
      then Inl (Error ''Cannot access the last item of empty list'')
      else (case item_at (items (lists w i)) (int (length (items (lists w i))) - 1) of
              None \<Rightarrow> Inl (TypeError ''Cannot read properties of undefined (reading controller)'')
            | Some item \<Rightarrow> Inr (controller item)))"

definition list_pop :: "string \<Rightarrow> 'c world \<Rightarrow> 'c option \<times> 'c world" where
  "list_pop i w =
     (case rev (items (lists w i)) of
        [] \<Rightarrow> (None, w)
      | item # rest \<Rightarrow> (Some (controller item), item_unmount item (set_items i (rev rest) w)))"

definition list_shift :: "string \<Rightarrow> 'c world \<Rightarrow> 'c option \<times> 'c world" where
  "list_shift i w =
     (case items (lists w i) of
        [] \<Rightarrow> (None, w)
      | item # rest \<Rightarrow> (Some (controller item), item_unmount item (set_items i rest w)))"

definition or_placeholder :: "'c block option \<Rightarrow> string \<Rightarrow> 'c world \<Rightarrow> node option" where
  "or_placeholder item i w =
     (case item of Some b \<Rightarrow> Some (rootElementB b) | None \<Rightarrow> placeholderL (lists w i))"

definition list_unshift ::
  "string \<Rightarrow> ('d \<Rightarrow> 'c) \<Rightarrow> 'd \<Rightarrow> 'c world \<Rightarrow> error + ('c \<times> 'c world)" where
  "list_unshift i blockBuilder data w =
     (case createItem blockBuilder data
             (\<lambda>element w'. insert_before_anchor
                 (or_placeholder (item_at (items (lists w' i)) 0) i w') element w') w of
        Inl err \<Rightarrow> Inl err
      | Inr (block, w1) \<Rightarrow> Inr (controller block, set_items i (block # items (lists w1 i)) w1))"

definition list_push ::
  "string \<Rightarrow> ('d \<Rightarrow> 'c) \<Rightarrow> 'd \<Rightarrow> 'c world \<Rightarrow> error + ('c \<times> 'c world)" where
  "list_push i blockBuilder data w =
     (case createItem blockBuilder data
             (\<lambda>element w'. insert_before_anchor (placeholderL (lists w' i)) element w') w of
        Inl err \<Rightarrow> Inl err
      | Inr (block, w1) \<Rightarrow> Inr (controller block, set_items i (items (lists w1 i) @ [block]) w1))"

definition list_insert ::
  "string \<Rightarrow> ('d \<Rightarrow> 'c) \<Rightarrow> int \<Rightarrow> 'd \<Rightarrow> 'c world \<Rightarrow> error + ('c \<times> 'c world)" where
  "list_insert i blockBuilder index data w =
     (case createItem blockBuilder data
             (\<lambda>element w'. insert_before_anchor
                 (or_placeholder (item_at (items (lists w' i)) index) i w') element w') w of
        Inl err \<Rightarrow> Inl err
      | Inr (block, w1) \<Rightarrow>
          (let its = items (lists w1 i); start = splice_start (length its) index
           in Inr (controller block, set_items i (take start its @ block # drop start its) w1)))"

definition list_swap :: "string \<Rightarrow> int \<Rightarrow> int \<Rightarrow> 'c world \<Rightarrow> error + 'c world" where
  "list_swap i from to w =
     (let its = items (lists w i)
      in if its = [] \<or> from = to \<or> from < 0 \<or> to < 0
            \<or> from \<ge> int (length its) \<or> to \<ge> int (length its)
         then Inr w
         else (let (from', to') = (if from > to then (to, from) else (from, to));
                   toItem = its ! nat to';
                   fromItem = its ! nat from';
                   nextFrom = (case nextSibling (doc w) (rootElementB fromItem) of
                                 Some n \<Rightarrow> Some n
                               | None \<Rightarrow> placeholderL (lists w i));
                   w1 = set_items i (its[nat from' := toItem, nat to' := fromItem]) w;
                   w2 = w1\<lparr>doc := insertBefore (rootElementB toItem) (rootElementB fromItem) (doc w1)\<rparr>
               in insert_before_anchor nextFrom (rootElementB toItem) w2))"

definition list_move :: "string \<Rightarrow> int \<Rightarrow> int \<Rightarrow> 'c world \<Rightarrow> 'c world" where
  "list_move i from to w =
     (let its = items (lists w i)
      in if its = [] \<or> from = to \<or> from < 0 \<or> to < 0
            \<or> from \<ge> int (length its) \<or> to \<ge> int (length its)
         then w
         else (let toItem = its ! nat to;
                   fromItem = its ! nat from;
                   start = splice_start (length its) to;
                   w1 = set_items i (take start its @ fromItem # drop start its) w
               in w1\<lparr>doc := before (rootElementB toItem) (rootElementB fromItem) (doc w1)\<rparr>))"

text \<open>
  \<^verbatim>\<open>Array.prototype.sort\<close> is stable: \<open>sort_with\<close> is the stable insertion sort by a
  comparator that follows the negative, zero, positive convention.
\<close>

fun insert_with :: "('a \<Rightarrow> 'a \<Rightarrow> int) \<Rightarrow> 'a \<Rightarrow> 'a list \<Rightarrow> 'a list" where
  "insert_with cmp x [] = [x]"
| "insert_with cmp x (y # ys) = (if cmp x y \<le> 0 then x # y # ys else y # insert_with cmp x ys)"

definition sort_with :: "('a \<Rightarrow> 'a \<Rightarrow> int) \<Rightarrow> 'a list \<Rightarrow> 'a list" where
  "sort_with cmp xs = foldr (insert_with cmp) xs []"

fun rethread ::
  "string \<Rightarrow> 'c block list \<Rightarrow> nat \<Rightarrow> node option \<Rightarrow> 'c world \<Rightarrow> error + 'c world" where
  "rethread i [] index lastNode w = Inr w"
| "rethread i (b # bs) index lastNode w =
     (case insert_before_anchor lastNode (rootElementB b) w of
        Inl err \<Rightarrow> Inl err
      | Inr w1 \<Rightarrow>
          rethread i bs (Suc index) (Some (rootElementB b))
            (set_items i ((items (lists w1 i))[index := b]) w1))"

definition list_sort :: "string \<Rightarrow> ('c \<Rightarrow> 'c \<Rightarrow> int) \<Rightarrow> 'c world \<Rightarrow> error + 'c world" where
  "list_sort i sortFn w =
     (if items (lists w i) = [] then Inr w
      else (let sorted = sort_with (\<lambda>a b. - sortFn (controller a) (controller b))
                                   (items (lists w i))
            in rethread i sorted 0 (placeholderL (lists w i)) w))"

text \<open>
  \<^verbatim>\<open>remove(predicate, count)\<close>: the scan returns the entries it removes with their
  indices.  A count that is not given is \<^verbatim>\<open>Number.MAX_VALUE\<close>, which \<^verbatim>\<open>count--\<close> never
  brings to zero: it is \<open>None\<close>.
\<close>

fun remove_scan ::
  "('c \<Rightarrow> int \<Rightarrow> bool) \<Rightarrow> 'c block list \<Rightarrow> int \<Rightarrow> int option \<Rightarrow> ('c block \<times> nat) list" where
  "remove_scan predicate [] index count = []"
| "remove_scan predicate (item # rest) index count =
     (let hit = predicate (controller item) index;
          count' = (if hit then map_option (\<lambda>c. c - 1) count else count)
      in (if hit then [(item, nat index)] else [])
         @ (if count' = Some 0 then [] else remove_scan predicate rest (index + 1) count'))"

definition delete_at :: "nat \<Rightarrow> 'a list \<Rightarrow> 'a list" where
  "delete_at k xs = take k xs @ drop (Suc k) xs"

definition list_remove_where ::
  "string \<Rightarrow> ('c \<Rightarrow> int \<Rightarrow> bool) \<Rightarrow> int option \<Rightarrow> 'c world \<Rightarrow> 'c list \<times> 'c world" where
  "list_remove_where i predicate count w =
     (let hits = remove_scan predicate (items (lists w i)) 0 count;
          w1 = fold item_unmount (map fst hits) w;
          its = fold delete_at (rev (map snd hits)) (items (lists w1 i))
      in (map (controller \<circ> fst) hits, set_items i its w1))"

datatype 'c removed = FirstRemoved "'c block option" | Controllers "'c list"

definition list_remove ::
  "string \<Rightarrow> int \<Rightarrow> int option \<Rightarrow> 'c world \<Rightarrow> 'c removed \<times> 'c world" where
  "list_remove i index count w =
     (let its = items (lists w i);
          start = splice_start (length its) index;
          n = splice_count (length its) start (case count of None \<Rightarrow> 1 | Some c \<Rightarrow> c);
          removed = take n (drop start its);
          w1 = set_items i (take start its @ drop (start + n) its) w;
          w2 = fold item_unmount removed w1
      in (if count \<noteq> None then FirstRemoved (item_at removed 0)
          else Controllers (map controller removed), w2))"

text \<open>
  The siblings the list manages are the children of the parent of the placeholder
  other than the placeholder, in document order.
\<close>

definition siblings :: "string \<Rightarrow> 'c world \<Rightarrow> node list" where
  "siblings i w =
     (case placeholderL (lists w i) of
        None \<Rightarrow> []
      | Some ph \<Rightarrow> (case parentNode (doc w) ph of
                     None \<Rightarrow> []
                   | Some p \<Rightarrow> childNodes (doc w) p))"

definition backing :: "string \<Rightarrow> 'c world \<Rightarrow> node list" where
  "backing i w = map rootElementB (items (lists w i))"

section \<open>Block and context\<close>

text \<open>
  \<^verbatim>\<open>createBlock(blockBuilder, parent, data)\<close>.  The closure variables of the block are
  the fields of \<open>block_vars\<close>; \<^verbatim>\<open>onUnmount\<close> is a set of functions and is kept as the list
  of the functions added, in the order they were added.  An effect is a function on the
  world that may throw and may return a disposer.  A block builder is a function that
  calls the methods of the context, which change the closure variables and the world,
  and returns its result: the parsed markup of the template, alone or with a controller.
  Of the methods of the context, \<^verbatim>\<open>ref()\<close> without an argument, \<^verbatim>\<open>toggle\<close>, \<^verbatim>\<open>list\<close> and
  \<^verbatim>\<open>effect\<close> are modelled.
\<close>

type_synonym 'c disposer = "'c world \<Rightarrow> error + 'c world"

type_synonym 'c effect = "'c world \<Rightarrow> error + ('c disposer option \<times> 'c world)"

record 'c block_vars =
  rootElementV :: "node option"
  mountedV :: bool
  block_id :: string
  controllerV :: "'c option"
  refs :: "(node, 'c returned, 'c world) ref list"
  effects :: "'c effect list"
  onUnmountV :: "'c disposer list"

datatype 'c built = Template "markup list" | WithController 'c "markup list"

datatype 'd initial = NoInitialData | Count nat 'd | Data "'d list"

type_synonym 'c builder =
  "'c block_vars \<Rightarrow> 'c world \<Rightarrow> error + ('c built \<times> 'c block_vars \<times> 'c world)"

definition createBlock :: "'c block_vars" where
  "createBlock =
     \<lparr>rootElementV = None, mountedV = False, block_id = [], controllerV = None,
      refs = [], effects = [], onUnmountV = []\<rparr>"

definition generateRefId :: "'c block_vars \<Rightarrow> nat \<Rightarrow> string" where
  "generateRefId context index = block_id context @ ''-'' @ toString 36 index"

definition ctx_effect :: "'c effect \<Rightarrow> 'c block_vars \<Rightarrow> error + 'c block_vars" where
  "ctx_effect effect context =
     (if mountedV context then Inl (Error ''Cannot use effect after block mounting'')
      else Inr (context\<lparr>effects := effects context @ [effect]\<rparr>))"

definition ctx_ref ::
  "'c block_vars \<Rightarrow> (node, 'c returned, 'c world) ref \<times> 'c block_vars" where
  "ctx_ref context =
     (let i = generateRefId context (length (refs context));
          r = createRef i Attribute None None None
      in (r, context\<lparr>refs := refs context @ [r]\<rparr>))"

definition ctx_toggle ::
  "bool option \<Rightarrow> 'c block_vars \<Rightarrow> 'c world \<Rightarrow>
     (node, 'c returned, 'c world) ref \<times> 'c block_vars \<times> 'c world" where
  "ctx_toggle vis context w =
     (let i = generateRefId context (length (refs context));
          (r, w1) = createToggle i vis None w
      in (r, context\<lparr>refs := r # refs context\<rparr>, w1))"

fun push_all :: "string \<Rightarrow> ('d \<Rightarrow> 'c) \<Rightarrow> 'd list \<Rightarrow> 'c world \<Rightarrow> error + 'c world" where
  "push_all i blockBuilder [] w = Inr w"
| "push_all i blockBuilder (item # rest) w =
     (case list_push i blockBuilder item w of
        Inl err \<Rightarrow> Inl err
      | Inr (_, w1) \<Rightarrow> push_all i blockBuilder rest w1)"

definition createList ::
  "string \<Rightarrow> ('d \<Rightarrow> 'c) \<Rightarrow> 'd initial \<Rightarrow> 'c block_vars \<Rightarrow> 'c world \<Rightarrow>
     error + ((node, 'c returned, 'c world) ref \<times> 'c block_vars \<times> 'c world)" where
  "createList i blockBuilder initialData context w =
     (let w1 = w\<lparr>lists := (lists w)(i := \<lparr>placeholderL = None, items = []\<rparr>)\<rparr>;
          populate = (\<lambda>initialList w'.
             case push_all i blockBuilder initialList w' of
               Inl err \<Rightarrow> Inl err
             | Inr w'' \<Rightarrow> Inr (None, w''))
      in (case (case initialData of
                  NoInitialData \<Rightarrow> Inr context
                | Count n u \<Rightarrow> (if n = 0 then Inr context
                               else ctx_effect (populate (replicate n u)) context)
                | Data ds \<Rightarrow> ctx_effect (populate ds) context) of
            Inl err \<Rightarrow> Inl err
          | Inr context1 \<Rightarrow> Inr (list_ref i, context1, w1)))"

definition ctx_list ::
  "('d \<Rightarrow> 'c) \<Rightarrow> 'd initial \<Rightarrow> 'c block_vars \<Rightarrow> 'c world \<Rightarrow>
     error + ((node, 'c returned, 'c world) ref \<times> 'c block_vars \<times> 'c world)" where
  "ctx_list blockBuilder initialData context w =
     (let i = generateRefId context (length (refs context))
      in (case createList i blockBuilder initialData context w of
            Inl err \<Rightarrow> Inl err
          | Inr (r, context1, w1) \<Rightarrow> Inr (r, context1\<lparr>refs := refs context1 @ [r]\<rparr>, w1)))"

definition is_element :: "markup \<Rightarrow> bool" where
  "is_element m = (case m of MElement _ _ _ \<Rightarrow> True | MText _ \<Rightarrow> False)"

definition createTemplate :: "markup list \<Rightarrow> error + markup" where
  "createTemplate templateString =
     (let children = filter is_element templateString
      in if length children \<noteq> 1
         then Inl (Error (''Invalid template. The template must have only child but got ''
                          @ toString 10 (length children)))
         else Inr (children ! 0))"

fun run_effects ::
  "'c effect list \<Rightarrow> 'c world \<Rightarrow> error + ('c disposer list \<times> 'c world)" where
  "run_effects [] w = Inr ([], w)"
| "run_effects (effect # rest) w =
     (case effect w of
        Inl err \<Rightarrow> Inl err
      | Inr (unmountHandler, w1) \<Rightarrow>
          (case run_effects rest w1 of
             Inl err \<Rightarrow> Inl err
           | Inr (handlers, w2) \<Rightarrow>
               Inr ((case unmountHandler of None \<Rightarrow> [] | Some h \<Rightarrow> [h]) @ handlers, w2)))"

definition block_mount ::
  "'c builder \<Rightarrow> node \<Rightarrow> 'c block_vars \<Rightarrow> 'c world \<Rightarrow>
     error + ('c block_vars \<times> 'c world \<times> (string \<times> node) list)" where
  "block_mount blockBuilder templateElement context w =
     (if tagName (doc w) templateElement \<noteq> Some ''TEMPLATE'' then Inl (Error ''Invalid element'')
      else (case blockBuilder
                   (context\<lparr>block_id := (case getAttribute (doc w) templateElement ''data-ref'' of
                                           None \<Rightarrow> ''null'' | Some v \<Rightarrow> v)\<rparr>) w of
              Inl err \<Rightarrow> Inl err
            | Inr (result, context1, w1) \<Rightarrow>
                (let (templateString, ctrl) =
                       (case result of Template m \<Rightarrow> (m, None)
                                     | WithController c m \<Rightarrow> (m, Some c))
                 in (case createTemplate templateString of
                       Inl err \<Rightarrow> Inl err
                     | Inr rootMarkup \<Rightarrow>
                         (let (rootElem, d1) = instantiate rootMarkup (doc w1);
                              d2 = before templateElement rootElem d1;
                              d3 = remove_node templateElement d2;
                              context2 = context1\<lparr>controllerV := ctrl,
                                                  rootElementV := Some rootElem,
                                                  mountedV := True\<rparr>
                          in (case mountRefs rootElem (refs context2) (w1\<lparr>doc := d3\<rparr>) of
                                Inl err \<Rightarrow> Inl err
                              | Inr (refs', w2, resolved) \<Rightarrow>
                                  (case run_effects (effects context2) w2 of
                                     Inl err \<Rightarrow> Inl err
                                   | Inr (handlers, w3) \<Rightarrow>
                                       Inr (context2\<lparr>refs := refs',
                                                     onUnmountV := onUnmountV context2 @ handlers\<rparr>,
                                            w3, resolved))))))))"

fun unmount_all ::
  "(node, 'r, 'w) ref list \<Rightarrow> 'w \<Rightarrow> error + ((node, 'r, 'w) ref list \<times> 'w)" where
  "unmount_all [] w = Inr ([], w)"
| "unmount_all (r # rs) w =
     (case unmount r w of
        Inl err \<Rightarrow> Inl err
      | Inr (r', w1) \<Rightarrow>
          (case unmount_all rs w1 of
             Inl err \<Rightarrow> Inl err
           | Inr (rs', w2) \<Rightarrow> Inr (r' # rs', w2)))"

fun run_disposers :: "'c disposer list \<Rightarrow> 'c world \<Rightarrow> error + 'c world" where
  "run_disposers [] w = Inr w"
| "run_disposers (x # xs) w =
     (case x w of Inl err \<Rightarrow> Inl err | Inr w1 \<Rightarrow> run_disposers xs w1)"

definition block_unmount ::
  "'c block_vars \<Rightarrow> 'c world \<Rightarrow> error + ('c block_vars \<times> 'c world)" where
  "block_unmount context w =
     (case rootElementV context of
        None \<Rightarrow> Inl (TypeError ''Cannot read properties of undefined (reading remove)'')
      | Some rootElem \<Rightarrow>
          (case unmount_all (refs context) (w\<lparr>doc := remove_node rootElem (doc w)\<rparr>) of
             Inl err \<Rightarrow> Inl err
           | Inr (refs', w1) \<Rightarrow>
               (case run_disposers (onUnmountV context) w1 of
                  Inl err \<Rightarrow> Inl err
                | Inr w2 \<Rightarrow> Inr (context\<lparr>refs := refs'\<rparr>, w2))))"

text \<open>
  \<^verbatim>\<open>render(container, blockBuilder)\<close>: assigning \<^verbatim>\<open>innerHTML\<close> replaces the children of
  the container by the parsed template element of \<^verbatim>\<open>generateTemplateHTML("root")\<close>.
\<close>

definition render ::
  "node \<Rightarrow> 'c builder \<Rightarrow> 'c world \<Rightarrow>
     error + ('c block_vars \<times> 'c world \<times> (string \<times> node) list)" where
  "render container blockBuilder w =
     (let d0 = fold remove_node (childNodes (doc w) container) (doc w);
          (t, d1) = new_node (Some ''TEMPLATE'')
                      [(''data-ref'', ''root''), (trim (generateRefAttribute ''root''), [])] d0;
          d2 = appendChild container t d1
      in block_mount blockBuilder t createBlock (w\<lparr>doc := d2\<rparr>))"

section \<open>Example documents and builders\<close>

text \<open>
  The concrete inputs of the evaluations below.  \<open>list_host\<close> is the document
  \<^verbatim>\<open><ul><template data-ref="root-0" data-ref-root-0></template></ul>\<close> (node 0 the
  \<^verbatim>\<open>ul\<close>, node 1 the template), and \<open>list_with data\<close> is the world after the ref of a
  list with id \<^verbatim>\<open>root-0\<close> was mounted on the template and the data were pushed one by
  one; the block builder of the entries returns the data as the controller.
  \<open>toggle_host\<close> is \<^verbatim>\<open><div><a></a><span></span><b></b></div>\<close> (nodes 0 to 3).
  \<open>body\<close> is an empty \<^verbatim>\<open>body\<close> element (node 0).
\<close>

definition list_host :: "string world" where
  "list_host =
     empty_world\<lparr>doc := snd (instantiate
        (MElement ''UL'' []
           [MElement ''TEMPLATE''
              [(''data-ref'', ''root-0''), (trim (generateRefAttribute ''root-0''), [])] []])
        empty_document)\<rparr>"

definition list_with :: "string list \<Rightarrow> error + string world" where
  "list_with data =
     (case mount (list_ref ''root-0'') 1 list_host of
        Inl err \<Rightarrow> Inl err
      | Inr (r, w) \<Rightarrow> push_all ''root-0'' (\<lambda>d. d) data w)"

definition by_first_char :: "string \<Rightarrow> string \<Rightarrow> int" where
  "by_first_char a b = int (of_char (hd a)) - int (of_char (hd b))"

definition toggle_host :: "unit world" where
  "toggle_host =
     empty_world\<lparr>doc := snd (instantiate
        (MElement ''DIV'' []
           [MElement ''A'' [] [], MElement ''SPAN'' [] [], MElement ''B'' [] []])
        empty_document)\<rparr>"

definition body :: "unit world" where
  "body = empty_world\<lparr>doc := snd (instantiate (MElement ''BODY'' [] []) empty_document)\<rparr>"

text \<open>
  The builder \<^verbatim>\<open>({ref, toggle, effect}) => { const r = ref(); const t = toggle(true);
  effect(first); effect(second); return `<div ${r}><span ${t}></span></div>` }\<close>,
  whose effects write a line to the console.
\<close>

definition log_effect :: "string \<Rightarrow> 'c effect" where
  "log_effect line w = Inr (None, w\<lparr>console := console w @ [line]\<rparr>)"

definition ref_then_toggle :: "unit builder" where
  "ref_then_toggle context w =
     (let (r, context1) = ctx_ref context;
          (t, context2, w1) = ctx_toggle (Some True) context1 w
      in (case ctx_effect (log_effect ''first effect'') context2 of
            Inl err \<Rightarrow> Inl err
          | Inr context3 \<Rightarrow>
              (case ctx_effect (log_effect ''second effect'') context3 of
                 Inl err \<Rightarrow> Inl err
               | Inr context4 \<Rightarrow>
                   Inr (Template [MElement ''DIV'' [(trim (template r), [])]
                                    [MElement ''SPAN'' [(trim (template t), [])] []]],
                        context4, w1))))"

text \<open>
  The builder \<^verbatim>\<open>({ref}) => `<div><span ${ref()}></span></div>`\<close>, and a ref whose
  initializer writes to the console whether the element it is given carries the marker
  attribute of the ref.
\<close>

definition single_ref :: "unit builder" where
  "single_ref context w =
     (let (r, context1) = ctx_ref context
      in Inr (Template [MElement ''DIV'' [] [MElement ''SPAN'' [(trim (template r), [])] []]],
              context1, w))"

definition observing_ref :: "string \<Rightarrow> (node, unit returned, unit world) ref" where
  "observing_ref i =
     createRef i Attribute
       (Some (\<lambda>element w.
          Inr (None, w\<lparr>console := console w @
                 [case getAttribute (doc w) element (trim (generateRefAttribute i)) of
                    None \<Rightarrow> ''marker removed''
                  | Some _ \<Rightarrow> ''marker present'']\<rparr>)))
       None None"

definition marked_span :: "unit world" where
  "marked_span =
     empty_world\<lparr>doc := snd (instantiate
        (MElement ''DIV'' []
           [MElement ''SPAN'' [(trim (generateRefAttribute ''root-0''), [])] []])
        empty_document)\<rparr>"

section \<open>Properties of the callback group and the signal\<close>

lemma group_call_eq: "group_call callbacks [x] = map (\<lambda>callback. (callback, [x])) callbacks"
  by (simp add: group_call_def)

lemma group_call_eq2:
  "group_call callbacks [x, y] = map (\<lambda>callback. (callback, [x, y])) callbacks"
  by (simp add: group_call_def)

lemma count_list_distinct:
  "distinct xs \<Longrightarrow> count_list xs x = (if x \<in> set xs then 1 else 0)"
  by (induction xs) auto

lemma distinct_group_add: "distinct callbacks \<Longrightarrow> distinct (fst (group_add callbacks c))"
  by (simp add: group_add_def)

lemma distinct_group_remove:
  "distinct callbacks \<Longrightarrow> distinct (snd (group_remove r callbacks))"
  by (simp add: group_remove_def distinct_removeAll)

lemma signal_inv_create: "signal_inv (createSignal s r)"
  by (simp add: signal_inv_def createSignal_def)

lemma signal_inv_set: "signal_inv sig \<Longrightarrow> signal_inv (fst (signal_set sig x))"
  by (simp add: signal_inv_def signal_set_def Let_def)

lemma signal_inv_on: "signal_inv sig \<Longrightarrow> signal_inv (fst (signal_on sig l k))"
  by (simp add: signal_inv_def signal_on_def group_add_def Let_def)

lemma signal_inv_off: "signal_inv sig \<Longrightarrow> signal_inv (snd (signal_off s sig))"
  by (simp add: signal_inv_def signal_off_def group_remove_def Let_def distinct_removeAll)

lemma signal_inv_emit: "signal_inv sig \<Longrightarrow> emit sig a = Inr (sig', t) \<Longrightarrow> signal_inv sig'"
  by (auto simp: signal_inv_def emit_def signal_set_def Let_def split: option.splits if_splits)

text \<open>
  C6.  \<^verbatim>\<open>set(x)\<close> resolves \<open>x\<close> (a function is applied to the current value).  When the
  resolved value is the current one, the signal is unchanged and no listener is called.
  Otherwise the resolved value is stored and the state listeners are called with it, in
  subscription order, each exactly once; no action listener is called.
\<close>

theorem signal_set_notifies:
  assumes "signal_inv sig"
  shows "signal_set sig x =
           (let v = (case x of Value u \<Rightarrow> u | Updater f \<Rightarrow> f (currentState sig))
            in if v = currentState sig then (sig, [])
               else (sig\<lparr>currentState := v\<rparr>,
                     map (\<lambda>l. (l, [StateArgument v])) (stateListeners sig)))
         \<and> (\<forall>l. count_list (map fst (snd (signal_set sig x))) l =
                  (if (case x of Value u \<Rightarrow> u | Updater f \<Rightarrow> f (currentState sig)) = currentState sig
                   then 0 else if l \<in> set (stateListeners sig) then 1 else 0))"
proof -
  have d: "distinct (stateListeners sig)"
    using assms by (simp add: signal_inv_def)
  have eq: "signal_set sig x =
           (let v = (case x of Value u \<Rightarrow> u | Updater f \<Rightarrow> f (currentState sig))
            in if v = currentState sig then (sig, [])
               else (sig\<lparr>currentState := v\<rparr>,
                     map (\<lambda>l. (l, [StateArgument v])) (stateListeners sig)))"
    by (auto simp: signal_set_def Let_def group_call_eq split: next_state.splits)
  have "count_list (map fst (snd (signal_set sig x))) l =
          (if (case x of Value u \<Rightarrow> u | Updater f \<Rightarrow> f (currentState sig)) = currentState sig
           then 0 else if l \<in> set (stateListeners sig) then 1 else 0)" for l
    using count_list_distinct [OF d, of l]
    by (simp add: eq Let_def comp_def)
  with eq show ?thesis by blast
qed

theorem signal_set_notifies_witness:
  "signal_inv (fst (signal_on (fst (signal_on
       (createSignal (1::int) (None :: (int \<Rightarrow> unit \<Rightarrow> int next_state) option)) 7 None)) 4 None))
   \<and> signal_set (fst (signal_on (fst (signal_on (createSignal (1::int) None) 7 None)) 4 None))
        (Updater (\<lambda>p. p + 1))
     = (\<lparr>currentState = 2, stateListeners = [7, 4], actionListeners = [],
         reducer = (None :: (int \<Rightarrow> unit \<Rightarrow> int next_state) option)\<rparr>,
        [(7, [StateArgument 2]), (4, [StateArgument 2])])
   \<and> signal_set (fst (signal_on (fst (signal_on (createSignal (1::int) None) 7 None)) 4 None))
        (Value 1)
     = (\<lparr>currentState = 1, stateListeners = [7, 4], actionListeners = [],
         reducer = (None :: (int \<Rightarrow> unit \<Rightarrow> int next_state) option)\<rparr>, [])"
proof -
  let ?s = "fst (signal_on (fst (signal_on
              (createSignal (1::int) (None :: (int \<Rightarrow> unit \<Rightarrow> int next_state) option)) 7 None)) 4 None)"
  have s: "?s = \<lparr>currentState = 1, stateListeners = [7, 4], actionListeners = [],
                 reducer = None\<rparr>"
    by (simp add: signal_on_def createSignal_def group_add_def)
  have i: "signal_inv ?s"
    by (intro signal_inv_on signal_inv_create)
  show ?thesis
    using i signal_set_notifies [OF i, of "Updater (\<lambda>p. p + 1)"]
      signal_set_notifies [OF i, of "Value 1"]
    by (simp add: s Let_def)
qed

text \<open>
  C7, as the code has it.  For a signal with reducer \<open>r\<close>, \<^verbatim>\<open>emit(a)\<close> at the current
  value \<open>s\<close> first calls every action listener with \<open>(s, a)\<close>, the value before the
  reduction, and then hands \<open>r s a\<close> to \<^verbatim>\<open>set\<close>: the new value \<open>v\<close> is \<open>r s a\<close>, or
  \<open>r s a\<close> applied to \<open>s\<close> when \<open>r s a\<close> is a function.  When \<open>v\<close> differs from \<open>s\<close> it is
  stored and the state listeners are called with \<open>v\<close>, after all action listeners;
  otherwise the state is unchanged and no state listener is called.
\<close>

theorem emit_actions_then_set:
  assumes "reducer sig = Some r"
  shows "emit sig a =
           (let s = currentState sig;
                v = (case r s a of Value u \<Rightarrow> u | Updater f \<Rightarrow> f s)
            in Inr ((if v = s then sig else sig\<lparr>currentState := v\<rparr>),
                    map (\<lambda>l. (l, [StateArgument s, ActionArgument a])) (actionListeners sig)
                    @ (if v = s then []
                       else map (\<lambda>l. (l, [StateArgument v])) (stateListeners sig))))"
  using assms
  by (auto simp: emit_def signal_set_def Let_def group_call_eq group_call_eq2
      split: next_state.splits)

theorem emit_actions_then_set_witness:
  "emit (fst (signal_on (fst (signal_on
           (createSignal (10::int)
              (Some (\<lambda>s a. if a = 0 then Updater (\<lambda>p. p + 8) else Value (s + a))))
           3 (Some ''state''))) 5 (Some ''action''))) (4::int)
   = Inr (\<lparr>currentState = 14, stateListeners = [3], actionListeners = [5],
           reducer = Some (\<lambda>s a. if a = 0 then Updater (\<lambda>p. p + 8) else Value (s + a))\<rparr>,
          [(5, [StateArgument 10, ActionArgument 4]), (3, [StateArgument 14])])
   \<and> emit (fst (signal_on (fst (signal_on
           (createSignal (10::int)
              (Some (\<lambda>s a. if a = 0 then Updater (\<lambda>p. p + 8) else Value (s + a))))
           3 (Some ''state''))) 5 (Some ''action''))) (0::int)
   = Inr (\<lparr>currentState = 18, stateListeners = [3], actionListeners = [5],
           reducer = Some (\<lambda>s a. if a = 0 then Updater (\<lambda>p. p + 8) else Value (s + a))\<rparr>,
          [(5, [StateArgument 10, ActionArgument 0]), (3, [StateArgument 18])])"
proof -
  let ?r = "\<lambda>(s::int) (a::int). if a = 0 then Updater (\<lambda>p. p + 8) else Value (s + a)"
  let ?s = "fst (signal_on (fst (signal_on
              (createSignal (10::int) (Some ?r)) 3 (Some ''state''))) 5 (Some ''action''))"
  have s: "?s = \<lparr>currentState = 10, stateListeners = [3], actionListeners = [5],
                 reducer = Some ?r\<rparr>"
    by (simp add: signal_on_def createSignal_def group_add_def)
  have r: "reducer ?s = Some ?r"
    by (simp add: s)
  show ?thesis
    using emit_actions_then_set [OF r, of 4] emit_actions_then_set [OF r, of 0]
    by (simp add: s)
qed

text \<open>
  The claim as the specification states it says that the state listeners are called with
  \<open>r s a\<close> whenever \<open>r s a\<close> differs from \<open>s\<close>.  For a reducer whose result is a function
  that is not so.  At the value 10 and the action 4, with the state listener 3 and the
  action listener 5: the reducer \<^verbatim>\<open>(s, a) => p => p + a + 4\<close> gives the state listener
  18, the result applied to 10, and the reducer \<^verbatim>\<open>(s, a) => p => p\<close>, whose result is a
  function and so differs from 10, leaves the state at 10 and calls no state listener.
\<close>

theorem emit_function_result_counterexample:
  "emit \<lparr>currentState = (10::int), stateListeners = [3], actionListeners = [5],
         reducer = Some (\<lambda>s a. Updater (\<lambda>p. p + a + 4))\<rparr> (4::int)
   = Inr (\<lparr>currentState = 18, stateListeners = [3], actionListeners = [5],
           reducer = Some (\<lambda>s a. Updater (\<lambda>p. p + a + 4))\<rparr>,
          [(5, [StateArgument 10, ActionArgument 4]), (3, [StateArgument 18])])
   \<and> emit \<lparr>currentState = (10::int), stateListeners = [3], actionListeners = [5],
           reducer = Some (\<lambda>s a. Updater (\<lambda>p. p))\<rparr> (4::int)
     = Inr (\<lparr>currentState = 10, stateListeners = [3], actionListeners = [5],
             reducer = Some (\<lambda>s a. Updater (\<lambda>p. p))\<rparr>,
            [(5, [StateArgument 10, ActionArgument 4])])"
  by (simp add: emit_def signal_set_def group_call_def Let_def)

text \<open>
  For a reducer that returns plain values the new value is \<open>r s a\<close> itself.
\<close>

lemma emit_plain_reducer:
  assumes "reducer sig = Some (\<lambda>s a. Value (r s a))"
  shows "emit sig a =
           Inr ((if r (currentState sig) a = currentState sig then sig
                 else sig\<lparr>currentState := r (currentState sig) a\<rparr>),
                map (\<lambda>l. (l, [StateArgument (currentState sig), ActionArgument a]))
                    (actionListeners sig)
                @ (if r (currentState sig) a = currentState sig then []
                   else map (\<lambda>l. (l, [StateArgument (r (currentState sig) a)]))
                            (stateListeners sig)))"
  using assms
  by (auto simp: emit_def signal_set_def Let_def group_call_eq group_call_eq2)

text \<open>
  C10.  \<^verbatim>\<open>on(listener)\<close> without a kind adds the listener to the state listeners and
  calls nothing; the listener is called at once with the current value exactly when the
  kind is \<^verbatim>\<open>"state"\<close>.  A listener subscribed without a kind is called by the next
  \<^verbatim>\<open>set\<close> that changes the value.
\<close>

theorem signal_on_replay_only_for_state:
  "fst (snd (signal_on sig l None)) = []
   \<and> l \<in> set (stateListeners (fst (signal_on sig l None)))
   \<and> actionListeners (fst (signal_on sig l None)) = actionListeners sig
   \<and> currentState (fst (signal_on sig l None)) = currentState sig
   \<and> fst (snd (signal_on sig l k)) =
       (if k = Some ''state'' then [(l, [StateArgument (currentState sig)])] else [])
   \<and> snd (signal_set (fst (signal_on sig l None)) (Value v)) =
       (if v = currentState sig then []
        else map (\<lambda>c. (c, [StateArgument v])) (stateListeners (fst (signal_on sig l None))))"
  by (auto simp: signal_on_def signal_set_def group_add_def group_call_eq Let_def)

section \<open>Properties of the ref\<close>

text \<open>
  C8.  Calling the handle of an unmounted ref throws; \<^verbatim>\<open>mount\<close> on a mounted ref throws;
  \<^verbatim>\<open>unmount\<close> on an unmounted ref returns the ref and the world as they are, whatever the
  hooks would do, so a second \<^verbatim>\<open>unmount\<close> changes nothing; after a \<^verbatim>\<open>mount\<close> that
  returned, the ref is mounted and calling the handle returns a value.
\<close>

theorem ref_lifecycle:
  "(\<not> mounted r \<longrightarrow> invoke r w = Inl (Error ''The ref has not been mounted''))
   \<and> (mounted r \<longrightarrow> mount r e w = Inl (Error ''Cannot re-mount. The ref has been mounted''))
   \<and> (\<not> mounted r \<longrightarrow> unmount r w = Inr (r, w))
   \<and> (\<forall>r1 w1. unmount r w = Inr (r1, w1) \<longrightarrow> unmount r1 w' = Inr (r1, w'))
   \<and> (\<forall>r1 w1. mount r e w = Inr (r1, w1) \<longrightarrow>
        mounted r1 \<and> (\<exists>v. invoke r1 w' = Inr v)
        \<and> mount r1 e' w' = Inl (Error ''Cannot re-mount. The ref has been mounted''))"
proof (intro conjI allI impI)
  show "invoke r w = Inl (Error ''The ref has not been mounted'')" if "\<not> mounted r"
    using that by (simp add: invoke_def)
  show "mount r e w = Inl (Error ''Cannot re-mount. The ref has been mounted'')" if "mounted r"
    using that by (simp add: mount_def)
  show "unmount r w = Inr (r, w)" if "\<not> mounted r"
    using that by (simp add: unmount_def)
  show "unmount r1 w' = Inr (r1, w')" if "unmount r w = Inr (r1, w1)" for r1 w1
  proof -
    have "\<not> mounted r1"
      using that by (auto simp: unmount_def Let_def split: if_splits option.splits sum.splits)
    then show ?thesis by (simp add: unmount_def)
  qed
next
  fix r1 w1
  assume m: "mount r e w = Inr (r1, w1)"
  then have r1: "mounted r1 \<and> accessor r1 \<noteq> None"
    by (auto simp: mount_def Let_def split: if_splits option.splits sum.splits prod.splits)
  show "mounted r1" using r1 by simp
  show "\<exists>v. invoke r1 w' = Inr v" using r1 by (auto simp: invoke_def)
  show "mount r1 e' w' = Inl (Error ''Cannot re-mount. The ref has been mounted'')"
    using r1 by (simp add: mount_def)
qed

theorem ref_lifecycle_witness:
  "\<not> mounted (createRef ''root-0'' Attribute None (Some (\<lambda>w. Inr (Suc w))) (Some (\<lambda>w. Inr (w + 10)))
       :: (nat, unit, nat) ref)
   \<and> invoke (createRef ''root-0'' Attribute None (Some (\<lambda>w. Inr (Suc w))) (Some (\<lambda>w. Inr (w + 10)))
       :: (nat, unit, nat) ref) 0 = Inl (Error ''The ref has not been mounted'')
   \<and> unmount (createRef ''root-0'' Attribute None (Some (\<lambda>w. Inr (Suc w))) (Some (\<lambda>w. Inr (w + 10)))
       :: (nat, unit, nat) ref) 0
     = Inr (createRef ''root-0'' Attribute None (Some (\<lambda>w. Inr (Suc w))) (Some (\<lambda>w. Inr (w + 10))), 0)
   \<and> (\<exists>r1. mount (createRef ''root-0'' Attribute None (Some (\<lambda>w. Inr (Suc w))) (Some (\<lambda>w. Inr (w + 10)))
              :: (nat, unit, nat) ref) 5 0 = Inr (r1, 10)
          \<and> mounted r1
          \<and> invoke r1 10 = Inr (TheElement 5)
          \<and> mount r1 6 10 = Inl (Error ''Cannot re-mount. The ref has been mounted'')
          \<and> (\<exists>r2. unmount r1 10 = Inr (r2, 11) \<and> \<not> mounted r2 \<and> unmount r2 11 = Inr (r2, 11)))"
  using ref_lifecycle [where r = "createRef ''root-0'' Attribute None (Some (\<lambda>w. Inr (Suc w)))
                             (Some (\<lambda>w. Inr (w + 10))) :: (nat, unit, nat) ref"
                         and w = 0 and e = 5 and w' = 10 and e' = 6]
  by (simp add: createRef_def mount_def unmount_def invoke_def)

section \<open>Evaluation of the document operations\<close>

lemmas dom_defs = new_node_def createTextNode_def createElement_def appendChild_def
  remove_node_def parent_insertBefore_def before_def insertBefore_def nextSibling_def
  getAttribute_def setAttribute_def removeAttribute_def empty_document_def empty_world_def

lemmas string_defs = generateRefAttribute_def trim_def is_space_def

lemmas list_defs = list_with_def list_host_def list_ref_def list_init_def createRef_def mount_def
  list_push_def createItem_def item_mount_def generateDynamicRefId_def insert_before_anchor_def
  set_items_def backing_def siblings_def item_unmount_def item_at_def splice_start_def
  splice_count_def or_placeholder_def generateRefAttribute_def trim_def is_space_def
  digit_char_def

section \<open>Properties of the toggle\<close>

text \<open>
  C5, at a toggle created with initial visibility false and mounted on the
  \<^verbatim>\<open>span\<close> (node 2) of \<open>toggle_host\<close>.  After the mount the ref is mounted, \<^verbatim>\<open>visible\<close> is
  false, and the children of the \<^verbatim>\<open>div\<close> are the \<^verbatim>\<open>a\<close>, the placeholder (node 4), the
  \<^verbatim>\<open>span\<close> and the \<^verbatim>\<open>b\<close>: the \<^verbatim>\<open>span\<close> is still a child of the \<^verbatim>\<open>div\<close>.  The setter
  returned at once, since \<^verbatim>\<open>visible\<close> starts as false.
\<close>

theorem toggle_created_hidden_stays_attached:
  "(case createToggle ''root-0'' (Some False) None toggle_host of
      (r, w1) \<Rightarrow>
        (case mount r 2 w1 of
           Inl err \<Rightarrow> None
         | Inr (r', w2) \<Rightarrow>
             Some (mounted r', get_visible ''root-0'' w2, placeholder (toggles w2 ''root-0''),
                   childNodes (doc w2) 0, parentNode (doc w2) 2)))
   = Some (True, False, Some 4, [1, 4, 2, 3], Some 0)"
  by (simp add: createToggle_def mount_def createRef_def toggle_init_def toggle_onMount_def
      set_visible_def get_visible_def toggle_host_def dom_defs Let_def)

text \<open>
  The same toggle created with initial visibility true: the \<^verbatim>\<open>span\<close> is moved in front
  of the placeholder.  Hiding it then takes it out of the \<^verbatim>\<open>div\<close>, and setting
  \<^verbatim>\<open>visible\<close> to the value it has returns the world as it is.
\<close>

lemma toggle_created_visible:
  "(case createToggle ''root-0'' (Some True) None toggle_host of
      (r, w1) \<Rightarrow>
        (case mount r 2 w1 of
           Inl err \<Rightarrow> None
         | Inr (r', w2) \<Rightarrow>
             Some (get_visible ''root-0'' w2, childNodes (doc w2) 0,
                   map_sum (\<lambda>e. e) (\<lambda>w3. (get_visible ''root-0'' w3, childNodes (doc w3) 0,
                                           parentNode (doc w3) 2))
                     (toggle_hide ''root-0'' w2))))
   = Some (True, [1, 2, 4, 3], Inr (False, [1, 4, 3], None))"
  by (simp add: createToggle_def mount_def createRef_def toggle_init_def toggle_onMount_def
      set_visible_def get_visible_def toggle_host_def toggle_hide_def dom_defs Let_def)

lemma set_visible_same: "set_visible i (get_visible i w) w = Inr w"
  by (simp add: set_visible_def get_visible_def)

section \<open>Properties of the resolution of refs\<close>

lemma trim_root: "trim (generateRefAttribute ''root'') = ''data-ref-root''"
  by (simp add: string_defs)

lemma trim_root_0: "trim (generateRefAttribute ''root-0'') = ''data-ref-root-0''"
  by (simp add: string_defs)

lemma trim_root_1: "trim (generateRefAttribute ''root-1'') = ''data-ref-root-1''"
  by (simp add: string_defs)

lemma digit_0: "digit_char 0 = CHR ''0''"
  by (simp add: digit_char_def)

lemma digit_1: "digit_char (Suc 0) = CHR ''1''"
  by (simp add: digit_char_def)

text \<open>
  For an id that does not end in white space the name of the marker attribute is the id
  with \<^verbatim>\<open>data-ref-\<close> in front, so it is never the id itself, and removing the attribute
  named by the id leaves the marker attribute as it was.
\<close>

lemma trim_generateRefAttribute:
  assumes "i = [] \<or> \<not> is_space (last i)"
  shows "trim (generateRefAttribute i) = ''data-ref-'' @ i"
proof -
  have front: "dropWhile is_space (generateRefAttribute i) = ''data-ref-'' @ i @ '' ''"
    by (simp add: generateRefAttribute_def is_space_def)
  have rear: "dropWhile is_space (rev (''data-ref-'' @ i @ '' '')) = rev i @ rev ''data-ref-''"
  proof (cases "i = []")
    case True
    then show ?thesis by (simp add: is_space_def)
  next
    case False
    then obtain ys y where i: "i = ys @ [y]"
      by (metis rev_exhaust)
    with assms have "\<not> is_space y" by simp
    then show ?thesis by (simp add: i is_space_def)
  qed
  have "trim (generateRefAttribute i) = rev (dropWhile is_space (rev (''data-ref-'' @ i @ '' '')))"
    by (simp only: trim_def front)
  also have "\<dots> = rev (rev i @ rev ''data-ref-'')"
    by (simp only: rear)
  also have "\<dots> = ''data-ref-'' @ i"
    by simp
  finally show ?thesis .
qed

lemma marker_is_not_the_id:
  assumes "i = [] \<or> \<not> is_space (last i)"
  shows "trim (generateRefAttribute i) \<noteq> i"
proof
  assume "trim (generateRefAttribute i) = i"
  then have "length (''data-ref-'' @ i) = length i"
    using trim_generateRefAttribute [OF assms] by simp
  then show False by simp
qed

lemma getAttribute_removeAttribute_other:
  assumes "name \<noteq> i"
  shows "getAttribute (removeAttribute e i d) e' name = getAttribute d e' name"
proof -
  have "map_of (filter (\<lambda>(k, u). k \<noteq> i) xs) name = map_of xs name" for xs :: "(string \<times> string) list"
    using assms by (induction xs) auto
  then show ?thesis
    by (simp add: getAttribute_def removeAttribute_def)
qed

lemma marker_survives_removeAttribute:
  assumes "i = [] \<or> \<not> is_space (last i)"
  shows "getAttribute (removeAttribute e i d) e (trim (generateRefAttribute i))
         = getAttribute d e (trim (generateRefAttribute i))"
  using getAttribute_removeAttribute_other [OF marker_is_not_the_id [OF assms]] .

text \<open>
  C9, at the ref with id \<^verbatim>\<open>root-0\<close> and the document
  \<^verbatim>\<open><div><span data-ref-root-0></span></div>\<close>.  \<^verbatim>\<open>mountRefs\<close> finds the \<^verbatim>\<open>span\<close> (node 1)
  and mounts the ref on it; the initializer is given an element that carries the marker
  attribute, and the element carries it after the resolution: \<^verbatim>\<open>removeAttribute\<close> was
  called with the id, not with the name of the marker attribute.
\<close>

theorem marker_attribute_not_removed:
  "(case mountRefs 0 [observing_ref ''root-0''] marked_span of
      Inl err \<Rightarrow> None
    | Inr (rs, w, resolved) \<Rightarrow>
        Some (resolved, map mounted rs, console w,
              getAttribute (doc w) 1 (trim (generateRefAttribute ''root-0''))))
   = Some ([(''root-0'', 1)], [True], [''marker present''], Some [])"
  by (simp add: observing_ref_def marked_span_def createRef_def mount_def querySelector_def
      string_defs dom_defs Let_def numeral_eq_Suc)

text \<open>
  The same through \<^verbatim>\<open>render\<close>, for the builder with one \<^verbatim>\<open>ref()\<close>: the \<^verbatim>\<open>span\<close> (node 3)
  of the rendered block still has the attribute \<^verbatim>\<open>data-ref-root-0\<close>.
\<close>

lemma single_ref_result:
  "single_ref (createBlock\<lparr>block_id := ''root''\<rparr>) w =
     Inr (Template [MElement ''DIV'' [] [MElement ''SPAN'' [(''data-ref-root-0'', [])] []]],
          createBlock\<lparr>block_id := ''root'',
            refs := [createRef ''root-0'' Attribute None None None]\<rparr>,
          w)"
  by (simp add: single_ref_def ctx_ref_def generateRefId_def createBlock_def Let_def
      digit_0 createRef_def string_defs)

lemma rendered_element_keeps_marker:
  "(case render 0 single_ref body of
      Inl err \<Rightarrow> None
    | Inr (context, w, resolved) \<Rightarrow>
        Some (resolved, map mounted (refs context), attributes (doc w) 3))
   = Some ([(''root-0'', 3)], [True], [(''data-ref-root-0'', [])])"
  apply (simp add: render_def body_def dom_defs trim_root Let_def
      del: mountRefs.simps run_effects.simps)
  apply (simp add: block_mount_def dom_defs Let_def single_ref_result
      del: mountRefs.simps run_effects.simps)
  apply (simp add: createTemplate_def is_element_def dom_defs Let_def createBlock_def
      del: mountRefs.simps run_effects.simps)
  apply (subst mountRefs.simps)
  apply (simp add: createRef_def dom_defs Let_def trim_root_0 querySelector_def numeral_eq_Suc
      del: mountRefs.simps run_effects.simps)
  apply (simp add: mount_def createRef_def dom_defs Let_def)
  done

section \<open>Properties of the block\<close>

text \<open>
  What the builder of the example registers and returns, for the id \<^verbatim>\<open>root\<close> that
  \<^verbatim>\<open>render\<close> gives the block.
\<close>

lemma ref_then_toggle_result:
  "ref_then_toggle (createBlock\<lparr>block_id := ''root''\<rparr>) w =
     Inr (Template [MElement ''DIV'' [(''data-ref-root-0'', [])]
                      [MElement ''SPAN'' [(''data-ref-root-1'', [])] []]],
          createBlock\<lparr>block_id := ''root'',
            refs := [fst (createToggle ''root-1'' (Some True) None w),
                     createRef ''root-0'' Attribute None None None],
            effects := [log_effect ''first effect'', log_effect ''second effect'']\<rparr>,
          snd (createToggle ''root-1'' (Some True) None w))"
  by (simp add: ref_then_toggle_def ctx_ref_def ctx_toggle_def ctx_effect_def generateRefId_def
      createBlock_def Let_def split_def digit_0 digit_1 createRef_def createToggle_def
      string_defs)

text \<open>
  C2, at the builder that registers an element ref, then a toggle, then two effects.
  The element ref gets the id \<^verbatim>\<open>root-0\<close> and the toggle the id \<^verbatim>\<open>root-1\<close>, the ids of the
  first and the second registration.  \<^verbatim>\<open>mount\<close> resolves the toggle (on the \<^verbatim>\<open>span\<close>, node 3)
  before the element ref (on the \<^verbatim>\<open>div\<close>, node 2): \<^verbatim>\<open>toggle\<close> put its ref at the front
  of \<^verbatim>\<open>refs\<close>.  The effects run in the order of their registration.
\<close>

theorem toggle_resolved_before_earlier_ref:
  "(case render 0 ref_then_toggle body of
      Inl err \<Rightarrow> None
    | Inr (context, w, resolved) \<Rightarrow>
        Some (resolved, map ref_id (refs context), map mounted (refs context), console w))
   = Some ([(''root-1'', 3), (''root-0'', 2)], [''root-1'', ''root-0''], [True, True],
           [''first effect'', ''second effect''])"
  apply (simp add: render_def body_def dom_defs trim_root Let_def
      del: mountRefs.simps run_effects.simps)
  apply (simp add: block_mount_def dom_defs Let_def ref_then_toggle_result
      del: mountRefs.simps run_effects.simps)
  apply (simp add: createTemplate_def is_element_def dom_defs Let_def createBlock_def
      createToggle_def del: mountRefs.simps run_effects.simps)
  apply (subst mountRefs.simps)
  apply (simp add: createRef_def dom_defs Let_def trim_root_0 trim_root_1 querySelector_def
      numeral_eq_Suc del: mountRefs.simps run_effects.simps)
  apply (simp add: mount_def toggle_init_def dom_defs Let_def
      del: mountRefs.simps run_effects.simps)
  apply (simp add: toggle_onMount_def set_visible_def dom_defs Let_def
      del: mountRefs.simps run_effects.simps)
  apply (subst mountRefs.simps)
  apply (simp add: createRef_def dom_defs Let_def trim_root_0 trim_root_1 querySelector_def
      numeral_eq_Suc del: mountRefs.simps run_effects.simps)
  apply (simp add: mount_def dom_defs Let_def del: run_effects.simps)
  apply (simp add: log_effect_def createRef_def)
  done

text \<open>
  The methods of the context that register a ref: \<^verbatim>\<open>ref\<close> and \<^verbatim>\<open>list\<close> append it to
  \<^verbatim>\<open>refs\<close>, \<^verbatim>\<open>toggle\<close> puts it in front.
\<close>

lemma ctx_ref_appends: "refs (snd (ctx_ref context)) = refs context @ [fst (ctx_ref context)]"
  by (simp add: ctx_ref_def Let_def)

lemma ctx_list_appends:
  "ctx_list b initialData context w = Inr (r, context', w') \<Longrightarrow> refs context' = refs context @ [r]"
  by (auto simp: ctx_list_def createList_def ctx_effect_def Let_def
      split: sum.splits initial.splits if_splits)

lemma ctx_toggle_prepends:
  "refs (fst (snd (ctx_toggle v context w))) = fst (ctx_toggle v context w) # refs context"
  by (simp add: ctx_toggle_def createToggle_def Let_def)

section \<open>Properties of the list\<close>

text \<open>
  C1, at lists with the entries a, b and a, b, c (root elements 4, 6, 8; the
  placeholder is node 2).  \<^verbatim>\<open>move(0, 1)\<close> on a, b leaves three entries in the backing
  sequence, the first one twice, and two root elements in the tree.  \<^verbatim>\<open>swap(0, 1)\<close> on
  a, b exchanges the entries of the backing sequence and leaves the tree as it was.
  \<^verbatim>\<open>sort\<close> by the first character on a, b, c leaves the backing sequence c, b, a and
  the tree a, b, c.
\<close>

theorem list_order_diverges_from_tree:
  "(case list_with [''a'', ''b''] of
      Inl err \<Rightarrow> None
    | Inr w \<Rightarrow>
        Some (backing ''root-0'' w, siblings ''root-0'' w,
              backing ''root-0'' (list_move ''root-0'' 0 1 w),
              siblings ''root-0'' (list_move ''root-0'' 0 1 w)))
   = Some ([4, 6], [4, 6, 2], [4, 4, 6], [4, 6, 2])
   \<and> (case list_with [''a'', ''b''] of
        Inl err \<Rightarrow> None
      | Inr w \<Rightarrow>
          (case list_swap ''root-0'' 0 1 w of
             Inl err \<Rightarrow> None
           | Inr w' \<Rightarrow> Some (backing ''root-0'' w', siblings ''root-0'' w')))
     = Some ([6, 4], [4, 6, 2])
   \<and> (case list_with [''a'', ''b'', ''c''] of
        Inl err \<Rightarrow> None
      | Inr w \<Rightarrow>
          (case list_sort ''root-0'' by_first_char w of
             Inl err \<Rightarrow> None
           | Inr w' \<Rightarrow> Some (backing ''root-0'' w, siblings ''root-0'' w,
                            backing ''root-0'' w', siblings ''root-0'' w')))
     = Some ([4, 6, 8], [4, 6, 8, 2], [8, 6, 4], [4, 6, 8, 2])"
proof (intro conjI)
  show "(case list_with [''a'', ''b''] of
      Inl err \<Rightarrow> None
    | Inr w \<Rightarrow>
        Some (backing ''root-0'' w, siblings ''root-0'' w,
              backing ''root-0'' (list_move ''root-0'' 0 1 w),
              siblings ''root-0'' (list_move ''root-0'' 0 1 w)))
   = Some ([4, 6], [4, 6, 2], [4, 4, 6], [4, 6, 2])"
    by (simp add: list_defs dom_defs list_move_def Let_def)
  show "(case list_with [''a'', ''b''] of
        Inl err \<Rightarrow> None
      | Inr w \<Rightarrow>
          (case list_swap ''root-0'' 0 1 w of
             Inl err \<Rightarrow> None
           | Inr w' \<Rightarrow> Some (backing ''root-0'' w', siblings ''root-0'' w')))
     = Some ([6, 4], [4, 6, 2])"
    by (simp add: list_defs dom_defs list_swap_def Let_def)
  show "(case list_with [''a'', ''b'', ''c''] of
        Inl err \<Rightarrow> None
      | Inr w \<Rightarrow>
          (case list_sort ''root-0'' by_first_char w of
             Inl err \<Rightarrow> None
           | Inr w' \<Rightarrow> Some (backing ''root-0'' w, siblings ''root-0'' w,
                            backing ''root-0'' w', siblings ''root-0'' w')))
     = Some ([4, 6, 8], [4, 6, 8, 2], [8, 6, 4], [4, 6, 8, 2])"
    by (simp add: list_defs dom_defs list_sort_def sort_with_def by_first_char_def Let_def)
qed

text \<open>
  Where the entries are not neighbours \<^verbatim>\<open>swap\<close> exchanges them in the backing sequence
  and in the tree, whichever index comes first.
\<close>

lemma list_swap_apart:
  "(case list_with [''a'', ''b'', ''c''] of
      Inl err \<Rightarrow> None
    | Inr w \<Rightarrow>
        Some (map_sum (\<lambda>e. e) (\<lambda>w'. (backing ''root-0'' w', siblings ''root-0'' w'))
                (list_swap ''root-0'' 0 2 w),
              map_sum (\<lambda>e. e) (\<lambda>w'. (backing ''root-0'' w', siblings ''root-0'' w'))
                (list_swap ''root-0'' 2 0 w)))
   = Some (Inr ([8, 6, 4], [8, 6, 4, 2]), Inr ([8, 6, 4], [8, 6, 4, 2]))"
  by (simp add: list_defs dom_defs list_swap_def Let_def)

text \<open>
  \<^verbatim>\<open>move\<close> with indices it accepts always makes the backing sequence one entry longer.
\<close>

lemma list_move_grows:
  "0 \<le> from \<Longrightarrow> 0 \<le> to \<Longrightarrow> from \<noteq> to \<Longrightarrow> from < int (list_size i w) \<Longrightarrow>
   to < int (list_size i w) \<Longrightarrow> list_size i (list_move i from to w) = Suc (list_size i w)"
  by (auto simp: list_move_def list_size_def set_items_def splice_start_def Let_def)

text \<open>
  C3, at the list with the entries a, b, c.  \<^verbatim>\<open>remove(0)\<close> returns a sequence with
  the controller of a, and \<^verbatim>\<open>remove(7)\<close> returns the empty sequence; \<^verbatim>\<open>remove(0, 2)\<close>
  removes a and b and returns the child block a.  The test \<^verbatim>\<open>arguments.length > 1\<close>
  selects the single result for the call with a count.
\<close>

theorem list_remove_results_exchanged:
  "(case list_with [''a'', ''b'', ''c''] of
      Inl err \<Rightarrow> None
    | Inr w \<Rightarrow>
        Some (fst (list_remove ''root-0'' 0 None w),
              backing ''root-0'' (snd (list_remove ''root-0'' 0 None w)),
              siblings ''root-0'' (snd (list_remove ''root-0'' 0 None w)),
              fst (list_remove ''root-0'' 7 None w),
              fst (list_remove ''root-0'' 0 (Some 2) w),
              backing ''root-0'' (snd (list_remove ''root-0'' 0 (Some 2) w)),
              siblings ''root-0'' (snd (list_remove ''root-0'' 0 (Some 2) w))))
   = Some (Controllers [''a''], [6, 8], [6, 8, 2],
           Controllers [],
           FirstRemoved (Some \<lparr>rootElementB = 4, controller = ''a''\<rparr>), [8], [8, 2])"
  by (simp add: list_defs dom_defs list_remove_def Let_def)

lemma list_remove_result_shape:
  "(\<exists>cs. fst (list_remove i index None w) = Controllers cs \<and> length cs \<le> 1)
   \<and> (\<exists>b. fst (list_remove i index (Some n) w) = FirstRemoved b)"
  by (simp add: list_remove_def splice_count_def Let_def)

text \<open>
  C4, at the list with the entries a, b, c and at the empty list.  On the list with
  entries \<^verbatim>\<open>first\<close> and \<^verbatim>\<open>last\<close> throw the error of the empty list; on the empty list they
  read \<^verbatim>\<open>controller\<close> of \<^verbatim>\<open>undefined\<close>.  The guard is \<^verbatim>\<open>if (items.length)\<close>.
\<close>

theorem list_first_last_guard_inverted:
  "(case list_with [''a'', ''b'', ''c''] of
      Inl err \<Rightarrow> None
    | Inr w \<Rightarrow> Some (list_size ''root-0'' w, list_first ''root-0'' w, list_last ''root-0'' w))
   = Some (3, Inl (Error ''Cannot access the first item of empty list''),
           Inl (Error ''Cannot access the last item of empty list''))
   \<and> (case list_with [] of
        Inl err \<Rightarrow> None
      | Inr w \<Rightarrow> Some (list_size ''root-0'' w, list_first ''root-0'' w, list_last ''root-0'' w))
     = Some (0, Inl (TypeError ''Cannot read properties of undefined (reading controller)''),
             Inl (TypeError ''Cannot read properties of undefined (reading controller)''))"
  by (simp add: list_defs dom_defs list_first_def list_last_def list_size_def Let_def)

lemma list_first_never_returns:
  "list_first i w =
     (if items (lists w i) = []
      then Inl (TypeError ''Cannot read properties of undefined (reading controller)'')
      else Inl (Error ''Cannot access the first item of empty list''))"
  by (simp add: list_first_def item_at_def)

lemma list_last_never_returns:
  "list_last i w =
     (if items (lists w i) = []
      then Inl (TypeError ''Cannot read properties of undefined (reading controller)'')
      else Inl (Error ''Cannot access the last item of empty list''))"
  by (simp add: list_last_def item_at_def)


end
